theory Spec2Isabelle
  imports Complex_Main
begin

section \<open>JavaScript values used by the calculator component\<close>

subsection \<open>Numbers\<close>

text \<open>
  A JavaScript number is an IEEE 754 double: NaN, the two infinities, or a finite
  value, which is a rational. \<open>Fin q\<close> stands for the finite double of value \<open>q\<close>.
  The two zeros are identified: the component applies only \<open>===\<close>, \<open>==\<close>, \<open>!\<close>, \<open>*\<close>,
  \<open>toFixed\<close> and unary \<open>+\<close> to numbers, and none of them tells \<open>-0\<close> from \<open>+0\<close> other
  than by the sign of a zero result.
\<close>

datatype number = NaN | PosInf | NegInf | Fin rat

text \<open>Number of binary digits of a positive integer (0 for the others).\<close>

function bit_length :: "int \<Rightarrow> int" where
  "bit_length n = (if n \<le> 0 then 0 else 1 + bit_length (n div 2))"
  by pat_completeness auto
termination
  by (relation "measure nat") auto

declare bit_length.simps [simp del]

definition pow2 :: "int \<Rightarrow> rat" where
  "pow2 k = (if 0 \<le> k then 2 ^ nat k else 1 / 2 ^ nat (- k))"

text \<open>For \<open>q > 0\<close>, the exponent \<open>e\<close> with \<open>2^e \<le> q < 2^(e+1)\<close>.\<close>

definition binary_exponent :: "rat \<Rightarrow> int" where
  "binary_exponent q =
     (let (a, b) = quotient_of q;
          k = bit_length a - bit_length b
      in if pow2 k \<le> q then k else k - 1)"

definition ties_to_even :: "rat \<Rightarrow> int" where
  "ties_to_even q =
     (let f = \<lfloor>q\<rfloor>; d = q - of_int f
      in if d < 1 / 2 then f
         else if 1 / 2 < d then f + 1
         else if even f then f else f + 1)"

text \<open>
  The double nearest to a rational (round to nearest, ties to even): 53 significant
  bits, exponents from -1022 (below that the spacing stays \<open>2^-1074\<close>), and an
  infinity once the rounded magnitude reaches \<open>2^1024\<close>.
\<close>

definition round_double :: "rat \<Rightarrow> number" where
  "round_double q =
     (if q = 0 then Fin 0
      else let e = max (binary_exponent \<bar>q\<bar>) (- 1022);
               ulp = pow2 (e - 52);
               r = of_int (ties_to_even (\<bar>q\<bar> / ulp)) * ulp
           in if 2 ^ 1024 \<le> r then (if q < 0 then NegInf else PosInf)
              else Fin (if q < 0 then - r else r))"

text \<open>The operator \<open>*\<close> on two numbers.\<close>

fun multiply :: "number \<Rightarrow> number \<Rightarrow> number" where
  "multiply NaN _ = NaN"
| "multiply _ NaN = NaN"
| "multiply (Fin a) (Fin b) = round_double (a * b)"
| "multiply (Fin a) PosInf = (if a = 0 then NaN else if 0 < a then PosInf else NegInf)"
| "multiply (Fin a) NegInf = (if a = 0 then NaN else if 0 < a then NegInf else PosInf)"
| "multiply PosInf (Fin b) = (if b = 0 then NaN else if 0 < b then PosInf else NegInf)"
| "multiply NegInf (Fin b) = (if b = 0 then NaN else if 0 < b then NegInf else PosInf)"
| "multiply PosInf PosInf = PosInf"
| "multiply PosInf NegInf = NegInf"
| "multiply NegInf PosInf = NegInf"
| "multiply NegInf NegInf = PosInf"

text \<open>The operator \<open>===\<close> on two numbers (\<open>==\<close> is the same there): NaN equals nothing.\<close>

fun strict_equals :: "number \<Rightarrow> number \<Rightarrow> bool" where
  "strict_equals NaN _ = False"
| "strict_equals _ NaN = False"
| "strict_equals a b = (a = b)"

text \<open>
  \<open>x === y\<close> and \<open>x == y\<close> for a number \<open>x\<close> and a \<open>y\<close> of type \<open>number | null\<close>
  (\<open>None\<close> is \<open>null\<close>): a number never equals \<open>null\<close>.
\<close>

fun equals_nullable :: "number \<Rightarrow> number option \<Rightarrow> bool" where
  "equals_nullable a None = False"
| "equals_nullable a (Some b) = strict_equals a b"

text \<open>
  The strings \<open>x.toFixed(2)\<close> returns, by their form: \<open>"NaN"\<close>; \<open>"Infinity"\<close> and
  \<open>"-Infinity"\<close>; for a magnitude from \<open>10^21\<close> on, the sign and the shortest decimal
  that reads back as the same double; otherwise the sign and the digits of an integer
  \<open>n\<close> of hundredths, with the point before the last two.
\<close>

datatype numeric_string =
    Str_NaN
  | Str_Infinity bool
  | Str_Shortest bool rat
  | Str_Fixed bool int

text \<open>
  \<open>Number.prototype.toFixed\<close> at two fraction digits. The sign is taken off first
  (the flag is \<open>True\<close> for \<open>"-"\<close>); of the integers \<open>n\<close> with \<open>n / 100\<close> nearest to the
  magnitude the larger one is taken, so a tie goes away from zero.
\<close>

fun toFixed2 :: "number \<Rightarrow> numeric_string" where
  "toFixed2 NaN = Str_NaN"
| "toFixed2 PosInf = Str_Infinity False"
| "toFixed2 NegInf = Str_Infinity True"
| "toFixed2 (Fin x) =
     (if 10 ^ 21 \<le> \<bar>x\<bar> then Str_Shortest (x < 0) \<bar>x\<bar>
      else Str_Fixed (x < 0) \<lfloor>\<bar>x\<bar> * 100 + 1 / 2\<rfloor>)"

text \<open>Unary \<open>+\<close> on such a string: the double nearest to the decimal it spells.\<close>

fun unary_plus :: "numeric_string \<Rightarrow> number" where
  "unary_plus Str_NaN = NaN"
| "unary_plus (Str_Infinity neg) = (if neg then NegInf else PosInf)"
| "unary_plus (Str_Shortest neg x) = Fin (if neg then - x else x)"
| "unary_plus (Str_Fixed neg n) = round_double ((if neg then - 1 else 1) * of_int n / 100)"

text \<open>
  \<open>ToNumber\<close> on a value of type \<open>number | undefined\<close> (\<open>None\<close> is \<open>undefined\<close>), as
  \<open>*\<close> applies it to its operands.
\<close>

fun ToNumber :: "number option \<Rightarrow> number" where
  "ToNumber None = NaN"
| "ToNumber (Some n) = n"

subsection \<open>Truthiness\<close>

datatype jsvalue = JNull | JNumber number | JString string

fun truthy :: "jsvalue \<Rightarrow> bool" where
  "truthy JNull = False"
| "truthy (JNumber n) = (n \<noteq> NaN \<and> n \<noteq> Fin 0)"
| "truthy (JString s) = (s \<noteq> [])"

text \<open>
  A field of type \<open>number | null\<close> or \<open>string | null\<close> as a value; \<open>None\<close> is \<open>null\<close>
  (or \<open>undefined\<close>, where a function returns that: both are falsy).
\<close>

fun of_number :: "number option \<Rightarrow> jsvalue" where
  "of_number None = JNull"
| "of_number (Some n) = JNumber n"

fun of_string :: "string option \<Rightarrow> jsvalue" where
  "of_string None = JNull"
| "of_string (Some s) = JString s"

section \<open>Data model\<close>

text \<open>
  \<open>IPaymentOption\<close>, \<open>ITariff\<close> and the exchange data of \<open>shared/types\<close>, and the
  component's \<open>IFormValues\<close>. The enumerations \<open>Currency\<close> and \<open>PaymentPeriod\<close> are the
  type parameters \<open>'c\<close> and \<open>'p\<close>. The fields \<open>id\<close> and \<open>name\<close> carry a prefix.
\<close>

record 'p payment_option =
  option_id :: number
  basePrice :: number
  paymentPeriod :: 'p

record ('c, 'p) tariff =
  tariff_id :: number
  tariff_name :: string
  paymentOptions :: "'p payment_option list"
  baseCurrency :: 'c

record exchange_data =
  base_code :: string
  conversion_rates :: "string \<rightharpoonup> number"

record form_values =
  tariffId :: "number option"
  currency :: "string option"
  paymentOptionId :: "number option"

text \<open>The refs of the component: the two datasets, the loading flag, the form.\<close>

record ('c, 'p) component =
  tariffs :: "('c, 'p) tariff list"
  exchangeRates :: "exchange_data list"
  isLoading :: bool
  formValues :: form_values

definition initial :: "('c, 'p) component" where
  "initial =
     \<lparr>tariffs = [], exchangeRates = [], isLoading = True,
      formValues = \<lparr>tariffId = None, currency = None, paymentOptionId = None\<rparr>\<rparr>"

section \<open>The component\<close>

text \<open>
  The helpers \<open>tickerFromCurrency\<close> and \<open>getDiscountForOption\<close> of \<open>shared/utils\<close>
  are parameters of the functions that call them. A result \<open>None\<close> is \<open>undefined\<close>.
\<close>

subsection \<open>Field handlers\<close>

definition tariffSelectionHandler :: "number \<Rightarrow> ('c, 'p) component \<Rightarrow> ('c, 'p) component" where
  "tariffSelectionHandler newTariffId st =
     st\<lparr>formValues := (formValues st)\<lparr>tariffId := Some newTariffId\<rparr>\<rparr>"

definition currencySelectionHandler :: "string \<Rightarrow> ('c, 'p) component \<Rightarrow> ('c, 'p) component" where
  "currencySelectionHandler newCurrency st =
     st\<lparr>formValues := (formValues st)\<lparr>currency := Some newCurrency\<rparr>\<rparr>"

definition periodSelectionHandler :: "number option \<Rightarrow> ('c, 'p) component \<Rightarrow> ('c, 'p) component" where
  "periodSelectionHandler newPeriodId st =
     st\<lparr>formValues := (formValues st)\<lparr>paymentOptionId := newPeriodId\<rparr>\<rparr>"

subsection \<open>Computed values\<close>

text \<open>\<open>tariffs.find(tariff => tariff.id === formValues.tariffId) ?? null\<close>\<close>

definition selectedTariff :: "('c, 'p) component \<Rightarrow> ('c, 'p) tariff option" where
  "selectedTariff st =
     find (\<lambda>tariff. equals_nullable (tariff_id tariff) (tariffId (formValues st))) (tariffs st)"

text \<open>
  \<open>exchangeRate\<close>: 0 unless a tariff, a currency and a payment option are selected;
  0 when the ticker is falsy or no entry has it as base code; otherwise whatever
  \<open>conversion_rates[currency]\<close> holds, \<open>undefined\<close> (here \<open>None\<close>) for a missing key.
  An entry's \<open>conversion_rates\<close> is an object by its type, so \<open>!rates.conversion_rates\<close>
  is false.
\<close>

definition exchangeRate ::
    "('c \<Rightarrow> string option) \<Rightarrow> ('c, 'p) component \<Rightarrow> number option" where
  "exchangeRate tickerFromCurrency st =
     (case selectedTariff st of
        None \<Rightarrow> Some (Fin 0)
      | Some tariff \<Rightarrow>
          (case currency (formValues st) of
             None \<Rightarrow> Some (Fin 0)
           | Some cur \<Rightarrow>
               if \<not> truthy (JString cur) then Some (Fin 0)
               else if \<not> truthy (of_number (paymentOptionId (formValues st))) then Some (Fin 0)
               else
                 let ticker = tickerFromCurrency (baseCurrency tariff);
                     rates = find (\<lambda>rate. Some (base_code rate) = ticker) (exchangeRates st)
                 in if \<not> truthy (of_string ticker) then Some (Fin 0)
                    else (case rates of
                            None \<Rightarrow> Some (Fin 0)
                          | Some entry \<Rightarrow> conversion_rates entry cur)))"

text \<open>
  \<open>totalAmount\<close>: 0 without a tariff, with a falsy \<open>paymentOptionId\<close>, or when no option
  of the tariff has that id; otherwise \<open>+(basePrice * exchangeRate).toFixed(2)\<close>.
\<close>

definition totalAmount ::
    "('c \<Rightarrow> string option) \<Rightarrow> ('c, 'p) component \<Rightarrow> number" where
  "totalAmount tickerFromCurrency st =
     (case selectedTariff st of
        None \<Rightarrow> Fin 0
      | Some tariff \<Rightarrow>
          (case paymentOptionId (formValues st) of
             None \<Rightarrow> Fin 0
           | Some pid \<Rightarrow>
               if \<not> truthy (JNumber pid) then Fin 0
               else
                 (case find (\<lambda>option. strict_equals (option_id option) pid)
                         (paymentOptions tariff) of
                    None \<Rightarrow> Fin 0
                  | Some selectedOption \<Rightarrow>
                      unary_plus (toFixed2
                        (multiply (basePrice selectedOption)
                           (ToNumber (exchangeRate tickerFromCurrency st)))))))"

text \<open>
  \<open>discount\<close>: 0 unless a tariff is found and the three fields are truthy; otherwise
  \<open>disc ? +disc.toFixed(2) : 0\<close> for \<open>disc = getDiscountForOption(paymentOptions,
  paymentOptionId)\<close>.
\<close>

definition discount ::
    "('p payment_option list \<Rightarrow> number \<Rightarrow> number option) \<Rightarrow> ('c, 'p) component \<Rightarrow> number" where
  "discount getDiscountForOption st =
     (case selectedTariff st of
        None \<Rightarrow> Fin 0
      | Some tariff \<Rightarrow>
          (case paymentOptionId (formValues st) of
             None \<Rightarrow> Fin 0
           | Some pid \<Rightarrow>
               if \<not> truthy (JNumber pid) then Fin 0
               else if \<not> truthy (of_string (currency (formValues st))) then Fin 0
               else if \<not> truthy (of_number (tariffId (formValues st))) then Fin 0
               else
                 (case getDiscountForOption (paymentOptions tariff) pid of
                    None \<Rightarrow> Fin 0
                  | Some disc \<Rightarrow>
                      if truthy (JNumber disc) then unary_plus (toFixed2 disc) else Fin 0)))"

text \<open>The template's binding \<open>:discount="discount * exchangeRate"\<close>.\<close>

definition discount_binding ::
    "('c \<Rightarrow> string option) \<Rightarrow> ('p payment_option list \<Rightarrow> number \<Rightarrow> number option) \<Rightarrow>
     ('c, 'p) component \<Rightarrow> number" where
  "discount_binding tickerFromCurrency getDiscountForOption st =
     multiply (discount getDiscountForOption st) (ToNumber (exchangeRate tickerFromCurrency st))"

definition amountCurrency :: "('c, 'p) component \<Rightarrow> string" where
  "amountCurrency st =
     (case currency (formValues st) of
        None \<Rightarrow> []
      | Some selectedCurrency \<Rightarrow> if selectedCurrency = [] then [] else CHR '' '' # selectedCurrency)"

text \<open>
  \<open>canSubmit\<close> is \<open>tariffId && currency && paymentOptionId\<close>: the first falsy operand,
  or the last one. The button is bound by \<open>:disabled="!canSubmit"\<close>.
\<close>

definition canSubmit :: "form_values \<Rightarrow> jsvalue" where
  "canSubmit fv =
     (if \<not> truthy (of_number (tariffId fv)) then of_number (tariffId fv)
      else if \<not> truthy (of_string (currency fv)) then of_string (currency fv)
      else of_number (paymentOptionId fv))"

definition submit_disabled :: "form_values \<Rightarrow> bool" where
  "submit_disabled fv = (\<not> truthy (canSubmit fv))"

subsection \<open>The watcher on \<open>tariffId\<close>\<close>

datatype error = TypeError

text \<open>
  The callback of \<open>watch(() => formValues.tariffId, ...)\<close>, given the new value. No
  tariff with that id: nothing happens. Otherwise \<open>paymentOptions[0].id\<close> is read (an
  array passes \<open>paymentOptions && Array.isArray(paymentOptions)\<close>, empty or not), which
  throws on an empty array, before either field is written; then \<open>currency\<close> and
  \<open>paymentOptionId\<close> are set, a falsy value replaced by \<open>null\<close>.
\<close>

definition watch_tariffId ::
    "('c \<Rightarrow> string option) \<Rightarrow> ('c, 'p) component \<Rightarrow> number option \<Rightarrow>
     error + ('c, 'p) component" where
  "watch_tariffId tickerFromCurrency st newTariffId =
     (case find (\<lambda>tariff. equals_nullable (tariff_id tariff) newTariffId) (tariffs st) of
        None \<Rightarrow> Inr st
      | Some found \<Rightarrow>
          let selectedCurrency = tickerFromCurrency (baseCurrency found)
          in (case paymentOptions found of
                [] \<Rightarrow> Inl TypeError
              | first_option # _ \<Rightarrow>
                  let firstPeriodId = option_id first_option
                  in Inr (st\<lparr>formValues := (formValues st)
                       \<lparr>currency :=
                          (if \<not> truthy (of_string selectedCurrency) then None
                           else selectedCurrency),
                        paymentOptionId :=
                          (if \<not> truthy (JNumber firstPeriodId) then None
                           else Some firstPeriodId)\<rparr>\<rparr>)))"

subsection \<open>The loader\<close>

text \<open>
  \<open>fetchData\<close> awaits \<open>fetchCalculatorData()\<close>, whose outcome is the argument: \<open>Inr\<close> the
  two datasets, \<open>Inl\<close> the error thrown. The function is the list of its effects on
  the refs and the console, in order: the \<open>try\<close> block or the \<open>catch\<close> block, then
  \<open>finally\<close>.
\<close>

datatype ('c, 'p) effect =
    Assign_tariffs "('c, 'p) tariff list"
  | Assign_exchangeRates "exchange_data list"
  | Console_error string
  | Assign_isLoading bool

fun fetchData_effects ::
    "string + ('c, 'p) tariff list \<times> exchange_data list \<Rightarrow> ('c, 'p) effect list" where
  "fetchData_effects (Inr (fetchedTariffs, fetchedRates)) =
     [Assign_tariffs fetchedTariffs, Assign_exchangeRates fetchedRates, Assign_isLoading False]"
| "fetchData_effects (Inl e) = [Console_error e, Assign_isLoading False]"

fun perform :: "('c, 'p) effect \<Rightarrow> ('c, 'p) component \<Rightarrow> ('c, 'p) component" where
  "perform (Assign_tariffs ts) st = st\<lparr>tariffs := ts\<rparr>"
| "perform (Assign_exchangeRates rs) st = st\<lparr>exchangeRates := rs\<rparr>"
| "perform (Console_error e) st = st"
| "perform (Assign_isLoading b) st = st\<lparr>isLoading := b\<rparr>"

definition fetchData ::
    "string + ('c, 'p) tariff list \<times> exchange_data list \<Rightarrow> ('c, 'p) component \<Rightarrow>
     ('c, 'p) component" where
  "fetchData outcome st = fold perform (fetchData_effects outcome) st"

fun writes_isLoading :: "('c, 'p) effect \<Rightarrow> bool" where
  "writes_isLoading (Assign_isLoading b) = True"
| "writes_isLoading _ = False"

subsection \<open>Auxiliary predicates\<close>

fun finite_number :: "number \<Rightarrow> bool" where
  "finite_number (Fin q) = True"
| "finite_number _ = False"

section \<open>Concrete data\<close>

text \<open>
  The scenario of the specification: one tariff in USD with one monthly option of
  price 9.99, and one exchange-rate entry for USD with the rate 0.9 to EUR. The decimal
  literals are the doubles nearest to them. Currencies are written as their tickers, so
  the ticker function of the examples is \<open>Some\<close>.
\<close>

definition scenario_option :: "string payment_option" where
  "scenario_option =
     \<lparr>option_id = Fin 10, basePrice = round_double (999 / 100), paymentPeriod = ''monthly''\<rparr>"

definition scenario_tariff :: "(string, string) tariff" where
  "scenario_tariff =
     \<lparr>tariff_id = Fin 1, tariff_name = ''Basic'', paymentOptions = [scenario_option],
      baseCurrency = ''USD''\<rparr>"

definition scenario_entry :: exchange_data where
  "scenario_entry =
     \<lparr>base_code = ''USD'', conversion_rates = [''EUR'' \<mapsto> round_double (9 / 10)]\<rparr>"

definition scenario_rates :: "exchange_data list" where
  "scenario_rates = [scenario_entry]"

definition loaded :: "(string, string) component" where
  "loaded =
     \<lparr>tariffs = [scenario_tariff], exchangeRates = scenario_rates, isLoading = False,
      formValues = \<lparr>tariffId = None, currency = None, paymentOptionId = None\<rparr>\<rparr>"

definition scenario :: "(string, string) component" where
  "scenario =
     loaded\<lparr>formValues :=
       \<lparr>tariffId = Some (Fin 1), currency = Some ''EUR'', paymentOptionId = Some (Fin 10)\<rparr>\<rparr>"

text \<open>A tariff whose first payment option has the id 0, and one with no option.\<close>

definition zero_id_tariff :: "(string, string) tariff" where
  "zero_id_tariff =
     \<lparr>tariff_id = Fin 2, tariff_name = ''Trial'',
      paymentOptions =
        [\<lparr>option_id = Fin 0, basePrice = Fin 5, paymentPeriod = ''monthly''\<rparr>],
      baseCurrency = ''USD''\<rparr>"

definition empty_tariff :: "(string, string) tariff" where
  "empty_tariff =
     \<lparr>tariff_id = Fin 3, tariff_name = ''Archived'', paymentOptions = [],
      baseCurrency = ''USD''\<rparr>"

text \<open>A discount rule for the examples: a flat 0.125 for every option.\<close>

definition flat_discount :: "string payment_option list \<Rightarrow> number \<Rightarrow> number option" where
  "flat_discount options pid = Some (Fin (1 / 8))"

section \<open>The rounding of doubles\<close>

text \<open>
  The exponent function brackets its argument between two powers of 2, the rounded
  value lies within half a unit in the last place of the argument, and integers below
  \<open>2^53\<close> (the ids of the data) are doubles already.
\<close>

lemma pow2_powi: "pow2 k = 2 powi k"
  by (simp add: pow2_def power_int_def field_simps)

lemma pow2_pos: "0 < pow2 k"
  by (simp add: pow2_def)

lemma bit_length_bounds:
  "0 < n \<Longrightarrow> 1 \<le> bit_length n \<and> 2 ^ nat (bit_length n - 1) \<le> n \<and> n < 2 ^ nat (bit_length n)"
proof (induction n rule: bit_length.induct)
  case (1 n)
  show ?case
  proof (cases "n = 1")
    case True
    then show ?thesis by (simp add: bit_length.simps [of 1] bit_length.simps [of 0])
  next
    case False
    with "1.prems" have pos: "0 < n div 2" by simp
    from "1.IH" [OF _ pos] "1.prems"
    have ih: "1 \<le> bit_length (n div 2)" "2 ^ nat (bit_length (n div 2) - 1) \<le> n div 2"
      "n div 2 < 2 ^ nat (bit_length (n div 2))"
      by simp_all
    have bl: "bit_length n = 1 + bit_length (n div 2)"
      using "1.prems" by (simp add: bit_length.simps [of n])
    have e1: "nat (bit_length n - 1) = Suc (nat (bit_length (n div 2) - 1))"
      using ih(1) bl by simp
    have e2: "nat (bit_length n) = Suc (nat (bit_length (n div 2)))"
      using ih(1) bl by simp
    have "2 * 2 ^ nat (bit_length (n div 2) - 1) \<le> 2 * (n div 2)" using ih(2) by simp
    also have "\<dots> \<le> n" by simp
    finally have lo: "2 ^ nat (bit_length n - 1) \<le> n" by (simp add: e1)
    have "n < 2 * (n div 2) + 2" by simp
    also have "\<dots> \<le> 2 * 2 ^ nat (bit_length (n div 2))" using ih(3) by simp
    finally have hi: "n < 2 ^ nat (bit_length n)" by (simp add: e2)
    from lo hi bl ih(1) show ?thesis by simp
  qed
qed

lemma binary_exponent_bounds:
  assumes "0 < q"
  shows "pow2 (binary_exponent q) \<le> q \<and> q < pow2 (binary_exponent q + 1)"
proof -
  obtain a b where ab: "quotient_of q = (a, b)" by (cases "quotient_of q")
  then have b: "0 < b" and q: "q = of_int a / of_int b"
    by (simp_all add: quotient_of_denom_pos quotient_of_div)
  with assms have a: "0 < a" by (simp add: zero_less_divide_iff)
  let ?la = "bit_length a" and ?lb = "bit_length b"
  let ?k = "?la - ?lb"
  from bit_length_bounds [OF a] bit_length_bounds [OF b]
  have la: "1 \<le> ?la" "2 ^ nat (?la - 1) \<le> a" "a < 2 ^ nat ?la"
    and lb: "1 \<le> ?lb" "2 ^ nat (?lb - 1) \<le> b" "b < 2 ^ nat ?lb"
    by simp_all
  have "of_int (2 ^ nat (?la - 1)) \<le> (of_int a :: rat)"
    and "(of_int a :: rat) < of_int (2 ^ nat ?la)"
    and "of_int (2 ^ nat (?lb - 1)) \<le> (of_int b :: rat)"
    and "(of_int b :: rat) < of_int (2 ^ nat ?lb)"
    using la lb by (simp_all only: of_int_le_iff of_int_less_iff)
  then have ra: "(2::rat) powi (?la - 1) \<le> of_int a" "of_int a < (2::rat) powi ?la"
    and rb: "(2::rat) powi (?lb - 1) \<le> of_int b" "of_int b < (2::rat) powi ?lb"
    using la(1) lb(1) by (simp_all add: power_int_def)
  have bpos: "(0::rat) < of_int b" using b by simp
  have hi: "q < 2 powi (?k + 1)"
  proof -
    have "of_int a < (2::rat) powi ?la" by (rule ra)
    also have "\<dots> = 2 powi (?k + 1) * 2 powi (?lb - 1)"
      by (simp add: power_int_add [symmetric])
    also have "\<dots> \<le> 2 powi (?k + 1) * of_int b"
      using rb(1) by (simp add: mult_left_mono)
    finally show ?thesis using bpos by (simp add: q pos_divide_less_eq)
  qed
  have lo: "2 powi (?k - 1) < q"
  proof -
    have "(2::rat) powi (?k - 1) * of_int b < 2 powi (?k - 1) * 2 powi ?lb"
      using rb(2) by (simp add: mult_strict_left_mono)
    also have "\<dots> = 2 powi (?la - 1)"
      by (simp add: power_int_add [symmetric])
    also have "\<dots> \<le> of_int a" by (rule ra)
    finally show ?thesis using bpos by (simp add: q pos_less_divide_eq)
  qed
  show ?thesis
  proof (cases "pow2 ?k \<le> q")
    case True
    then have "binary_exponent q = ?k" by (simp add: binary_exponent_def ab)
    with True hi show ?thesis by (simp add: pow2_powi)
  next
    case False
    then have "binary_exponent q = ?k - 1" by (simp add: binary_exponent_def ab)
    with False lo show ?thesis by (simp add: pow2_powi)
  qed
qed

lemma ties_to_even_of_int: "ties_to_even (of_int m) = m"
  by (simp add: ties_to_even_def)

lemma ties_to_even_nearest: "\<bar>of_int (ties_to_even q) - q\<bar> \<le> 1 / 2"
proof -
  have "of_int \<lfloor>q\<rfloor> \<le> q" "q < of_int \<lfloor>q\<rfloor> + 1" by linarith+
  then show ?thesis by (auto simp: ties_to_even_def Let_def abs_le_iff)
qed

lemma round_double_nearest:
  assumes "round_double q = Fin r" and "q \<noteq> 0"
  shows "\<bar>r - q\<bar> \<le> pow2 (max (binary_exponent \<bar>q\<bar>) (- 1022) - 52) / 2"
proof -
  define ulp where "ulp = pow2 (max (binary_exponent \<bar>q\<bar>) (- 1022) - 52)"
  define m where "m = ties_to_even (\<bar>q\<bar> / ulp)"
  have ulp: "0 < ulp" unfolding ulp_def by (rule pow2_pos)
  have r: "r = (if q < 0 then - (of_int m * ulp) else of_int m * ulp)"
  proof (cases "2 ^ 1024 \<le> of_int m * ulp")
    case True
    with assms show ?thesis
      unfolding round_double_def Let_def m_def ulp_def
      by (simp only: if_False if_True split: if_splits) simp_all
  next
    case False
    with assms show ?thesis
      unfolding round_double_def Let_def m_def ulp_def
      by (simp only: if_False if_True number.inject split: if_splits)
  qed
  have "of_int m * ulp - \<bar>q\<bar> = (of_int m - \<bar>q\<bar> / ulp) * ulp"
    using ulp by (simp add: field_simps)
  then have "\<bar>of_int m * ulp - \<bar>q\<bar>\<bar> = \<bar>of_int m - \<bar>q\<bar> / ulp\<bar> * ulp"
    using ulp by (simp add: abs_mult)
  also have "\<dots> \<le> 1 / 2 * ulp"
    using ties_to_even_nearest [of "\<bar>q\<bar> / ulp"] ulp
    unfolding m_def by (intro mult_right_mono) simp_all
  finally have bound: "\<bar>of_int m * ulp - \<bar>q\<bar>\<bar> \<le> ulp / 2" by simp
  show ?thesis
  proof (cases "q < 0")
    case True
    then have "r - q = - (of_int m * ulp - \<bar>q\<bar>)" by (simp add: r)
    then have "\<bar>r - q\<bar> = \<bar>of_int m * ulp - \<bar>q\<bar>\<bar>" by (simp only: abs_minus_cancel)
    with bound show ?thesis by (simp add: ulp_def)
  next
    case False
    then have "r - q = of_int m * ulp - \<bar>q\<bar>" by (simp add: r)
    with bound show ?thesis by (simp add: ulp_def)
  qed
qed

lemma round_double_of_int:
  assumes "0 < n" and "n < 2 ^ 53"
  shows "round_double (of_int n) = Fin (of_int n)"
proof -
  let ?q = "of_int n :: rat"
  let ?e = "binary_exponent ?q"
  have q: "0 < ?q" "1 \<le> ?q" "?q < 2 ^ 53" using assms by simp_all
  from binary_exponent_bounds [OF q(1)]
  have lo: "2 powi ?e \<le> ?q" and hi: "?q < 2 powi (?e + 1)" by (simp_all add: pow2_powi)
  have e0: "0 \<le> ?e"
  proof (rule ccontr)
    assume "\<not> 0 \<le> ?e"
    then have "(2::rat) powi (?e + 1) \<le> 2 powi 0"
      by (intro power_int_increasing) simp_all
    with q(2) hi show False by simp
  qed
  have "(2::rat) powi ?e < 2 powi 53" using lo q(3) by simp
  then have "?e < 53" by (rule power_int_le_imp_less_exp [rotated]) simp_all
  then have e52: "?e \<le> 52" by simp
  define d where "d = nat (52 - ?e)"
  have d: "?e = 52 - int d" using e52 by (simp add: d_def)
  have ulp: "pow2 (?e - 52) = 1 / 2 ^ d"
    by (simp add: pow2_def d)
  have "?q / pow2 (?e - 52) = of_int (n * 2 ^ d)" by (simp add: ulp)
  then have "of_int (ties_to_even (?q / pow2 (?e - 52))) * pow2 (?e - 52) = ?q"
    by (simp only: ties_to_even_of_int) (simp add: ulp)
  moreover have "max ?e (- 1022) = ?e" using e0 by simp
  moreover have "\<not> (2::rat) ^ 1024 \<le> ?q"
  proof -
    have "?q < 2 ^ 53" by (rule q)
    also have "\<dots> \<le> (2::rat) ^ 1024" by (rule power_increasing) simp_all
    finally show ?thesis by simp
  qed
  ultimately show ?thesis
    using q(1) by (simp add: round_double_def Let_def del: of_int_less_iff of_int_0_less_iff)
qed

text \<open>
  \<open>+x.toFixed(2)\<close> rounds the exact value of \<open>x\<close> to hundredths, a tie going away from
  zero, and takes the double nearest to the result.
\<close>

lemma round2_half_away_from_zero:
  assumes "\<bar>x\<bar> < 10 ^ 21"
  shows "unary_plus (toFixed2 (Fin x))
         = round_double (sgn x * of_int \<lfloor>\<bar>x\<bar> * 100 + 1 / 2\<rfloor> / 100)"
proof -
  have "\<lfloor>1 / 2 :: rat\<rfloor> = 0" by (rule floor_unique) simp_all
  with assms show ?thesis by (cases "x < 0"; cases "x = 0") (simp_all add: sgn_if)
qed

section \<open>Lemmas on lookups and the scenario\<close>

lemma strict_equals_iff: "strict_equals a b \<longleftrightarrow> a = b \<and> a \<noteq> NaN"
  by (cases a; cases b) auto

lemma find_by_key:
  assumes "distinct (map key xs)" and "y \<in> set xs"
    and "\<And>x. x \<in> set xs \<Longrightarrow> P x = (key x = key y)"
  shows "find P xs = Some y"
  using assms
proof (induction xs)
  case Nil
  then show ?case by simp
next
  case (Cons x xs)
  show ?case
  proof (cases "x = y")
    case True
    with Cons.prems(3) [of x] show ?thesis by simp
  next
    case False
    with Cons.prems have y: "y \<in> set xs" by simp
    from Cons.prems(1) y have "key x \<noteq> key y" by force
    with Cons.prems(3) [of x] have "\<not> P x" by simp
    moreover have "find P xs = Some y"
      using Cons.IH Cons.prems y by simp
    ultimately show ?thesis by simp
  qed
qed

lemma find_list_all_not: "list_all (\<lambda>x. \<not> P x) xs \<Longrightarrow> find P xs = None"
  by (induction xs) auto

lemma find_tariff_by_id:
  assumes "T \<in> set ts" and "distinct (map tariff_id ts)" and "tariff_id T \<noteq> NaN"
  shows "find (\<lambda>tariff. equals_nullable (tariff_id tariff) (Some (tariff_id T))) ts = Some T"
proof (rule find_by_key [where key = tariff_id])
  show "distinct (map tariff_id ts)" by fact
  show "T \<in> set ts" by fact
  fix x assume "x \<in> set ts"
  show "equals_nullable (tariff_id x) (Some (tariff_id T)) = (tariff_id x = tariff_id T)"
    using assms(3) by (auto simp: strict_equals_iff)
qed

lemma find_option_by_id:
  assumes "opt \<in> set os" and "distinct (map option_id os)" and "strict_equals (option_id opt) pid"
  shows "find (\<lambda>option. strict_equals (option_id option) pid) os = Some opt"
proof (rule find_by_key [where key = option_id])
  show "distinct (map option_id os)" by fact
  show "opt \<in> set os" by fact
  fix x assume "x \<in> set os"
  show "strict_equals (option_id x) pid = (option_id x = option_id opt)"
    using assms(3) by (auto simp: strict_equals_iff)
qed

lemma multiply_NaN_right: "multiply x NaN = NaN"
  by (cases x) auto

lemma round_double_zero: "round_double 0 = Fin 0"
  by (simp add: round_double_def)

lemma round2_zero: "unary_plus (toFixed2 (Fin 0)) = Fin 0"
proof -
  have "\<lfloor>1 / 2 :: rat\<rfloor> = 0" by (rule floor_unique) simp_all
  then show ?thesis by (simp add: round_double_zero)
qed

lemma exchangeRate_falsy_option:
  "\<not> truthy (of_number (paymentOptionId (formValues st))) \<Longrightarrow> exchangeRate tk st = Some (Fin 0)"
  by (simp add: exchangeRate_def split: option.splits)

text \<open>The scenario's values.\<close>

lemma scenario_selected: "selectedTariff scenario = Some scenario_tariff"
  by (simp add: selectedTariff_def scenario_def loaded_def scenario_tariff_def)

lemma scenario_rate: "exchangeRate Some scenario = Some (round_double (9 / 10))"
  by (simp add: exchangeRate_def scenario_selected)
     (simp add: scenario_def loaded_def scenario_tariff_def scenario_rates_def scenario_entry_def)

lemma scenario_option_member:
  "scenario_option \<in> set (paymentOptions scenario_tariff)"
  "distinct (map option_id (paymentOptions scenario_tariff))"
  "option_id scenario_option = Fin 10"
  "basePrice scenario_option = round_double (999 / 100)"
  by (simp_all add: scenario_tariff_def scenario_option_def)

text \<open>
  The rounding at work: 0.1 is the double \<open>3602879701896397 / 2^55\<close>, and the scenario's
  \<open>+(9.99 * 0.9).toFixed(2)\<close> is the double nearest to 8.99.
\<close>

lemma round_double_tenth: "round_double (1 / 10) = Fin (3602879701896397 / 36028797018963968)"
  by code_simp

lemma scenario_total_value:
  "unary_plus (toFixed2 (multiply (round_double (999 / 100)) (round_double (9 / 10))))
   = Fin (5060920081257595 / 562949953421312)"
  by code_simp

lemma flat_discount_rounded: "unary_plus (toFixed2 (Fin (1 / 8))) = round_double (13 / 100)"
proof -
  have "\<lfloor>(1 / 8 :: rat) * 100 + 1 / 2\<rfloor> = 13" by (rule floor_unique) simp_all
  moreover have "\<bar>1 / 8 :: rat\<bar> = 1 / 8" by simp
  ultimately show ?thesis by simp
qed

section \<open>The reset rule\<close>

text \<open>
  Claim C1, as amended. Let the catalog's tariff ids be distinct, \<open>T\<close> a tariff of the
  catalog whose id is not NaN, whose base currency has a non-empty ticker and whose
  first payment option has a truthy id (neither 0 nor NaN). When \<open>tariffId\<close> becomes
  \<open>T\<close>'s id, the watcher leaves \<open>currency\<close> equal to that ticker and \<open>paymentOptionId\<close>
  equal to the id of \<open>T\<close>'s first payment option, and changes nothing else.
\<close>

theorem watch_tariffId_resets:
  assumes "T \<in> set (tariffs st)"
    and "distinct (map tariff_id (tariffs st))"
    and "tariff_id T \<noteq> NaN"
    and "paymentOptions T = opt # rest"
    and "truthy (JNumber (option_id opt))"
    and "tickerFromCurrency (baseCurrency T) = Some ticker"
    and "ticker \<noteq> []"
  shows "watch_tariffId tickerFromCurrency (tariffSelectionHandler (tariff_id T) st)
           (Some (tariff_id T))
         = Inr (st\<lparr>formValues :=
                  \<lparr>tariffId = Some (tariff_id T), currency = Some ticker,
                   paymentOptionId = Some (option_id opt)\<rparr>\<rparr>)"
proof -
  have "find (\<lambda>tariff. equals_nullable (tariff_id tariff) (Some (tariff_id T)))
          (tariffs (tariffSelectionHandler (tariff_id T) st)) = Some T"
    using find_tariff_by_id [OF assms(1-3)] by (simp add: tariffSelectionHandler_def)
  then show ?thesis
    using assms(4-7) by (simp add: watch_tariffId_def tariffSelectionHandler_def)
qed

text \<open>The scenario's tariff, selected in the loaded component.\<close>

theorem watch_tariffId_resets_witness:
  "scenario_tariff \<in> set (tariffs loaded)
   \<and> distinct (map tariff_id (tariffs loaded))
   \<and> tariff_id scenario_tariff \<noteq> NaN
   \<and> paymentOptions scenario_tariff = scenario_option # []
   \<and> truthy (JNumber (option_id scenario_option))
   \<and> Some (baseCurrency scenario_tariff) = Some ''USD''
   \<and> watch_tariffId Some (tariffSelectionHandler (Fin 1) loaded) (Some (Fin 1))
       = Inr (loaded\<lparr>formValues :=
                \<lparr>tariffId = Some (Fin 1), currency = Some ''USD'',
                 paymentOptionId = Some (Fin 10)\<rparr>\<rparr>)"
proof -
  have h1: "scenario_tariff \<in> set (tariffs loaded)"
    and h2: "distinct (map tariff_id (tariffs loaded))"
    and h3: "tariff_id scenario_tariff \<noteq> NaN"
    and h4: "paymentOptions scenario_tariff = scenario_option # []"
    and h5: "truthy (JNumber (option_id scenario_option))"
    and h6: "Some (baseCurrency scenario_tariff) = Some ''USD''"
    and h7: "''USD'' \<noteq> []"
    by (simp_all add: loaded_def scenario_tariff_def scenario_option_def)
  have ids: "tariff_id scenario_tariff = Fin 1" "option_id scenario_option = Fin 10"
    by (simp_all add: scenario_tariff_def scenario_option_def)
  from watch_tariffId_resets [where tickerFromCurrency = Some, OF h1 h2 h3 h4 h5 h6 h7]
  show ?thesis using h1 h2 h3 h4 h5 h6 by (simp add: ids)
qed

text \<open>
  Claim C1 as stated fails where the first payment option has the id 0: the tariff is
  in the catalog and has a payment option, and after its selection \<open>paymentOptionId\<close>
  is \<open>null\<close>, not 0.
\<close>

theorem watch_tariffId_zero_first_id:
  "zero_id_tariff \<in> set (tariffs (loaded\<lparr>tariffs := [scenario_tariff, zero_id_tariff]\<rparr>))
   \<and> paymentOptions zero_id_tariff \<noteq> []
   \<and> option_id (hd (paymentOptions zero_id_tariff)) = Fin 0
   \<and> watch_tariffId Some
        (tariffSelectionHandler (tariff_id zero_id_tariff)
           (loaded\<lparr>tariffs := [scenario_tariff, zero_id_tariff]\<rparr>))
        (Some (tariff_id zero_id_tariff))
       = Inr (loaded\<lparr>tariffs := [scenario_tariff, zero_id_tariff],
                formValues :=
                  \<lparr>tariffId = Some (Fin 2), currency = Some ''USD'', paymentOptionId = None\<rparr>\<rparr>)"
  by (simp add: watch_tariffId_def tariffSelectionHandler_def loaded_def scenario_tariff_def
      zero_id_tariff_def)

text \<open>
  Claim C2: selecting a tariff with no payment option should set \<open>paymentOptionId\<close> to
  \<open>null\<close>. The watcher reads \<open>paymentOptions[0].id\<close> of the empty array instead, and
  throws before it has written a field.
\<close>

theorem watch_tariffId_empty_options_throws:
  "watch_tariffId Some
     (tariffSelectionHandler (tariff_id empty_tariff)
        (loaded\<lparr>tariffs := [scenario_tariff, empty_tariff]\<rparr>))
     (Some (tariff_id empty_tariff))
   = Inl TypeError"
  by (simp add: watch_tariffId_def tariffSelectionHandler_def loaded_def scenario_tariff_def
      empty_tariff_def)

text \<open>
  Claim C7. When no tariff of the catalog has an id equal (\<open>==\<close>) to the new \<open>tariffId\<close>,
  and in particular when the new value is \<open>null\<close>, the watcher changes nothing: the
  component, with \<open>currency\<close> and \<open>paymentOptionId\<close>, is as before.
\<close>

theorem watch_tariffId_no_match_no_action:
  "(list_all (\<lambda>tariff. \<not> equals_nullable (tariff_id tariff) newTariffId) (tariffs st)
      \<longrightarrow> watch_tariffId tk st newTariffId = Inr st)
   \<and> watch_tariffId tk st None = Inr st"
proof (intro conjI impI)
  assume "list_all (\<lambda>tariff. \<not> equals_nullable (tariff_id tariff) newTariffId) (tariffs st)"
  then have "find (\<lambda>tariff. equals_nullable (tariff_id tariff) newTariffId) (tariffs st) = None"
    by (rule find_list_all_not)
  then show "watch_tariffId tk st newTariffId = Inr st"
    by (simp add: watch_tariffId_def)
next
  have "list_all (\<lambda>tariff. \<not> equals_nullable (tariff_id tariff) None) (tariffs st)"
    by (simp add: list_all_iff)
  then have "find (\<lambda>tariff. equals_nullable (tariff_id tariff) None) (tariffs st) = None"
    by (rule find_list_all_not)
  then show "watch_tariffId tk st None = Inr st"
    by (simp add: watch_tariffId_def)
qed

text \<open>The id 99, which no tariff of the scenario has, and \<open>null\<close>.\<close>

theorem watch_tariffId_no_match_no_action_witness:
  "list_all (\<lambda>tariff. \<not> equals_nullable (tariff_id tariff) (Some (Fin 99))) (tariffs scenario)
   \<and> watch_tariffId Some scenario (Some (Fin 99)) = Inr scenario
   \<and> watch_tariffId Some scenario None = Inr scenario"
proof -
  have h: "list_all (\<lambda>tariff. \<not> equals_nullable (tariff_id tariff) (Some (Fin 99)))
             (tariffs scenario)"
    by (simp add: scenario_def loaded_def scenario_tariff_def)
  from watch_tariffId_no_match_no_action [of "Some (Fin 99)" scenario Some] h
  show ?thesis by simp
qed

section \<open>The computed values\<close>

text \<open>
  Claim C3. Let tariff \<open>T\<close> be selected, \<open>paymentOptionId\<close> equal (\<open>===\<close>) to the id of
  the option \<open>opt\<close> of \<open>T\<close> (option ids within \<open>T\<close> distinct; the id non-zero or the
  price finite), and \<open>exchangeRate\<close> evaluate to \<open>rate\<close>. Then \<open>totalAmount\<close> is the
  product of \<open>opt\<close>'s base price and \<open>rate\<close>, formatted by \<open>toFixed(2)\<close> and read back
  as a number. And \<open>totalAmount\<close> is 0 when no tariff is selected, and when no option of
  the selected tariff has an id equal to \<open>paymentOptionId\<close> (\<open>null\<close> included).
\<close>

theorem totalAmount_rounds_converted_price:
  "(selectedTariff st = Some T
      \<and> opt \<in> set (paymentOptions T) \<and> distinct (map option_id (paymentOptions T))
      \<and> paymentOptionId (formValues st) = Some pid \<and> strict_equals (option_id opt) pid
      \<and> (truthy (JNumber pid) \<or> finite_number (basePrice opt))
      \<and> exchangeRate tk st = rate
    \<longrightarrow> totalAmount tk st = unary_plus (toFixed2 (multiply (basePrice opt) (ToNumber rate))))
   \<and> (selectedTariff st = None \<longrightarrow> totalAmount tk st = Fin 0)
   \<and> (selectedTariff st = Some T
      \<and> list_all (\<lambda>option. \<not> equals_nullable (option_id option) (paymentOptionId (formValues st)))
            (paymentOptions T)
    \<longrightarrow> totalAmount tk st = Fin 0)"
proof (intro conjI impI)
  assume h: "selectedTariff st = Some T
      \<and> opt \<in> set (paymentOptions T) \<and> distinct (map option_id (paymentOptions T))
      \<and> paymentOptionId (formValues st) = Some pid \<and> strict_equals (option_id opt) pid
      \<and> (truthy (JNumber pid) \<or> finite_number (basePrice opt))
      \<and> exchangeRate tk st = rate"
  then have found:
    "find (\<lambda>option. strict_equals (option_id option) pid) (paymentOptions T) = Some opt"
    using find_option_by_id by blast
  show "totalAmount tk st = unary_plus (toFixed2 (multiply (basePrice opt) (ToNumber rate)))"
  proof (cases "truthy (JNumber pid)")
    case True
    with h found show ?thesis by (simp add: totalAmount_def)
  next
    case False
    with h obtain b where b: "basePrice opt = Fin b" by (cases "basePrice opt") auto
    from False h have "rate = Some (Fin 0)"
      using exchangeRate_falsy_option [of st tk] by simp
    with b have "unary_plus (toFixed2 (multiply (basePrice opt) (ToNumber rate))) = Fin 0"
      by (simp add: round_double_zero round2_zero del: toFixed2.simps)
    moreover from False h have "totalAmount tk st = Fin 0" by (simp add: totalAmount_def)
    ultimately show ?thesis by simp
  qed
next
  assume "selectedTariff st = None"
  then show "totalAmount tk st = Fin 0" by (simp add: totalAmount_def)
next
  assume h: "selectedTariff st = Some T
      \<and> list_all (\<lambda>option. \<not> equals_nullable (option_id option) (paymentOptionId (formValues st)))
            (paymentOptions T)"
  show "totalAmount tk st = Fin 0"
  proof (cases "paymentOptionId (formValues st)")
    case None
    with h show ?thesis by (simp add: totalAmount_def)
  next
    case (Some pid)
    with h have "find (\<lambda>option. strict_equals (option_id option) pid) (paymentOptions T) = None"
      using find_list_all_not [of "\<lambda>option. strict_equals (option_id option) pid" "paymentOptions T"]
      by simp
    with h Some show ?thesis by (simp add: totalAmount_def)
  qed
qed

text \<open>
  The scenario, where the total is the double nearest to 8.99; the loaded component
  with nothing selected; the scenario with the unknown option id 11.
\<close>

theorem totalAmount_rounds_converted_price_witness:
  "selectedTariff scenario = Some scenario_tariff
   \<and> scenario_option \<in> set (paymentOptions scenario_tariff)
   \<and> distinct (map option_id (paymentOptions scenario_tariff))
   \<and> paymentOptionId (formValues scenario) = Some (Fin 10)
   \<and> strict_equals (option_id scenario_option) (Fin 10)
   \<and> truthy (JNumber (Fin 10))
   \<and> exchangeRate Some scenario = Some (round_double (9 / 10))
   \<and> totalAmount Some scenario = Fin (5060920081257595 / 562949953421312)
   \<and> selectedTariff loaded = None
   \<and> totalAmount Some loaded = Fin 0
   \<and> selectedTariff (periodSelectionHandler (Some (Fin 11)) scenario) = Some scenario_tariff
   \<and> list_all (\<lambda>option. \<not> equals_nullable (option_id option) (Some (Fin 11)))
        (paymentOptions scenario_tariff)
   \<and> totalAmount Some (periodSelectionHandler (Some (Fin 11)) scenario) = Fin 0"
proof -
  have pid: "paymentOptionId (formValues scenario) = Some (Fin 10)"
    by (simp add: scenario_def)
  have eq: "strict_equals (option_id scenario_option) (Fin 10)"
    and tr: "truthy (JNumber (Fin 10))"
    by (simp_all add: scenario_option_member)
  have first: "totalAmount Some scenario = Fin (5060920081257595 / 562949953421312)"
    using totalAmount_rounds_converted_price
      [of scenario scenario_tariff scenario_option "Fin 10" Some "Some (round_double (9 / 10))"]
      scenario_selected scenario_option_member(1,2) pid eq tr scenario_rate
    by (simp add: scenario_option_member scenario_total_value del: toFixed2.simps unary_plus.simps multiply.simps)
  have none: "selectedTariff loaded = None"
    by (simp add: selectedTariff_def loaded_def)
  have second: "totalAmount Some loaded = Fin 0"
    using totalAmount_rounds_converted_price [of loaded _ _ _ Some] none by blast
  let ?st = "periodSelectionHandler (Some (Fin 11)) scenario"
  have sel: "selectedTariff ?st = Some scenario_tariff"
    by (simp add: selectedTariff_def periodSelectionHandler_def scenario_def loaded_def
        scenario_tariff_def)
  have miss: "list_all (\<lambda>option. \<not> equals_nullable (option_id option) (Some (Fin 11)))
        (paymentOptions scenario_tariff)"
    by (simp add: scenario_tariff_def scenario_option_def)
  have pid': "paymentOptionId (formValues ?st) = Some (Fin 11)"
    by (simp add: periodSelectionHandler_def)
  have third: "totalAmount Some ?st = Fin 0"
    using totalAmount_rounds_converted_price [of ?st scenario_tariff _ _ Some] sel miss pid'
    by simp
  show ?thesis
    using scenario_selected scenario_option_member(1,2) pid eq tr scenario_rate first none
      second sel miss third
    by simp
qed

text \<open>
  Claim C4: \<open>exchangeRate\<close> should be 0 whenever a lookup misses. With the scenario's
  tariff and option selected and the currency GBP, for which the USD entry has no rate,
  it is \<open>undefined\<close> (here \<open>None\<close>), not 0.
\<close>

theorem exchangeRate_missing_currency_key_undefined:
  "exchangeRate Some (currencySelectionHandler ''GBP'' scenario) = None"
  by (simp add: exchangeRate_def selectedTariff_def currencySelectionHandler_def scenario_def
      loaded_def scenario_tariff_def scenario_rates_def scenario_entry_def)

text \<open>
  The other misses do give 0: no tariff selected, a falsy currency or payment option,
  no entry for the ticker of the tariff's base currency.
\<close>

lemma exchangeRate_zero_cases:
  "selectedTariff st = None \<Longrightarrow> exchangeRate tk st = Some (Fin 0)"
  "\<not> truthy (of_string (currency (formValues st))) \<Longrightarrow> exchangeRate tk st = Some (Fin 0)"
  "\<not> truthy (of_number (paymentOptionId (formValues st))) \<Longrightarrow> exchangeRate tk st = Some (Fin 0)"
  "selectedTariff st = Some T \<Longrightarrow>
     list_all (\<lambda>rate. Some (base_code rate) \<noteq> tk (baseCurrency T)) (exchangeRates st) \<Longrightarrow>
     exchangeRate tk st = Some (Fin 0)"
  by (auto simp: exchangeRate_def Let_def find_list_all_not split: option.splits)

text \<open>
  Claim C10. Let a tariff \<open>T\<close>, a currency \<open>cur\<close> and a payment option of \<open>T\<close> be
  selected, and let the first exchange-rate entry whose base code is the ticker of
  \<open>T\<close>'s base currency have no rate for \<open>cur\<close>. Then \<open>exchangeRate\<close> is \<open>undefined\<close>, not
  the number 0, and \<open>totalAmount\<close> is NaN, not 0.
\<close>

theorem exchangeRate_undefined_totalAmount_NaN:
  assumes "selectedTariff st = Some T"
    and "currency (formValues st) = Some cur" and "cur \<noteq> []"
    and "paymentOptionId (formValues st) = Some pid" and "truthy (JNumber pid)"
    and "opt \<in> set (paymentOptions T)" and "strict_equals (option_id opt) pid"
    and "tk (baseCurrency T) = Some base" and "base \<noteq> []"
    and "find (\<lambda>rate. Some (base_code rate) = Some base) (exchangeRates st) = Some entry"
    and "conversion_rates entry cur = None"
  shows "exchangeRate tk st = None \<and> exchangeRate tk st \<noteq> Some (Fin 0)
         \<and> totalAmount tk st = NaN \<and> totalAmount tk st \<noteq> Fin 0"
proof -
  have rate: "exchangeRate tk st = None"
    using assms by (simp add: exchangeRate_def)
  from assms(6,7) have "find (\<lambda>option. strict_equals (option_id option) pid) (paymentOptions T) \<noteq> None"
    by (auto simp: find_None_iff)
  then obtain found where
    "find (\<lambda>option. strict_equals (option_id option) pid) (paymentOptions T) = Some found"
    by auto
  with assms(1,4,5) rate have "totalAmount tk st = NaN"
    by (simp add: totalAmount_def multiply_NaN_right)
  with rate show ?thesis by simp
qed

text \<open>The scenario with the currency RUB, which the USD entry does not list.\<close>

theorem exchangeRate_undefined_totalAmount_NaN_witness:
  "selectedTariff (currencySelectionHandler ''RUB'' scenario) = Some scenario_tariff
   \<and> currency (formValues (currencySelectionHandler ''RUB'' scenario)) = Some ''RUB''
   \<and> paymentOptionId (formValues (currencySelectionHandler ''RUB'' scenario)) = Some (Fin 10)
   \<and> truthy (JNumber (Fin 10))
   \<and> scenario_option \<in> set (paymentOptions scenario_tariff)
   \<and> strict_equals (option_id scenario_option) (Fin 10)
   \<and> find (\<lambda>rate. Some (base_code rate) = Some ''USD'')
        (exchangeRates (currencySelectionHandler ''RUB'' scenario)) = Some scenario_entry
   \<and> conversion_rates scenario_entry ''RUB'' = None
   \<and> exchangeRate Some (currencySelectionHandler ''RUB'' scenario) = None
   \<and> totalAmount Some (currencySelectionHandler ''RUB'' scenario) = NaN"
proof -
  let ?st = "currencySelectionHandler ''RUB'' scenario"
  have h1: "selectedTariff ?st = Some scenario_tariff"
    by (simp add: selectedTariff_def currencySelectionHandler_def scenario_def loaded_def
        scenario_tariff_def)
  have h2: "currency (formValues ?st) = Some ''RUB''" and h3: "''RUB'' \<noteq> []"
    and h4: "paymentOptionId (formValues ?st) = Some (Fin 10)" and h5: "truthy (JNumber (Fin 10))"
    by (simp_all add: currencySelectionHandler_def scenario_def)
  have h6: "scenario_option \<in> set (paymentOptions scenario_tariff)"
    and h7: "strict_equals (option_id scenario_option) (Fin 10)"
    and h8: "Some (baseCurrency scenario_tariff) = Some ''USD''" and h9: "''USD'' \<noteq> []"
    by (simp_all add: scenario_tariff_def scenario_option_def)
  have h10: "find (\<lambda>rate. Some (base_code rate) = Some ''USD'') (exchangeRates ?st)
      = Some scenario_entry"
    and h11: "conversion_rates scenario_entry ''RUB'' = None"
    by (simp_all add: currencySelectionHandler_def scenario_def loaded_def scenario_rates_def scenario_entry_def)
  from exchangeRate_undefined_totalAmount_NaN [where tk = Some, OF h1 h2 h3 h4 h5 h6 h7 h8 h9 h10 h11]
  show ?thesis using h1 h2 h4 h5 h6 h7 h10 h11 by simp
qed

text \<open>
  Claim C9. With a tariff \<open>T\<close> found and the three fields truthy, \<open>discount\<close> is the
  result of \<open>getDiscountForOption\<close> on \<open>T\<close>'s options, rounded by \<open>toFixed(2)\<close> (or 0 when
  the result is falsy): an amount in \<open>T\<close>'s base currency, which depends neither on the
  exchange rates nor on which currency is selected. The conversion is the template's:
  the rounded discount times \<open>exchangeRate\<close>. So the discount is rounded first and
  converted afterwards, whereas \<open>totalAmount\<close> (claim C3) multiplies first and rounds
  the product.
\<close>

theorem discount_rounded_then_converted:
  assumes "selectedTariff st = Some T"
    and "truthy (of_number (tariffId (formValues st)))"
    and "truthy (of_string (currency (formValues st)))"
    and "paymentOptionId (formValues st) = Some pid" and "truthy (JNumber pid)"
  shows "discount gd st =
           (case gd (paymentOptions T) pid of
              None \<Rightarrow> Fin 0
            | Some disc \<Rightarrow> if truthy (JNumber disc) then unary_plus (toFixed2 disc) else Fin 0)
         \<and> discount gd (st\<lparr>exchangeRates := rates\<rparr>) = discount gd st
         \<and> (cur \<noteq> [] \<longrightarrow> discount gd (currencySelectionHandler cur st) = discount gd st)
         \<and> discount_binding tk gd st
             = multiply (discount gd st) (ToNumber (exchangeRate tk st))"
  using assms
  by (simp add: discount_def discount_binding_def selectedTariff_def currencySelectionHandler_def
      split: option.splits)

text \<open>The scenario with the flat discount 0.125, which rounds to 0.13.\<close>

theorem discount_rounded_then_converted_witness:
  "selectedTariff scenario = Some scenario_tariff
   \<and> truthy (of_number (tariffId (formValues scenario)))
   \<and> truthy (of_string (currency (formValues scenario)))
   \<and> paymentOptionId (formValues scenario) = Some (Fin 10) \<and> truthy (JNumber (Fin 10))
   \<and> discount flat_discount scenario = round_double (13 / 100)
   \<and> discount flat_discount (scenario\<lparr>exchangeRates := []\<rparr>) = discount flat_discount scenario
   \<and> ''RUB'' \<noteq> []
   \<and> discount flat_discount (currencySelectionHandler ''RUB'' scenario)
       = discount flat_discount scenario
   \<and> discount_binding Some flat_discount scenario
       = multiply (round_double (13 / 100)) (round_double (9 / 10))"
proof -
  have h: "truthy (of_number (tariffId (formValues scenario)))"
      "truthy (of_string (currency (formValues scenario)))"
      "paymentOptionId (formValues scenario) = Some (Fin 10)" "truthy (JNumber (Fin 10))"
    by (simp_all add: scenario_def)
  have c: "''RUB'' \<noteq> []" by simp
  from discount_rounded_then_converted
    [OF scenario_selected h, of flat_discount "[]" "''RUB''" Some]
  show ?thesis
    using scenario_selected h c
    by (simp add: flat_discount_def flat_discount_rounded scenario_rate
        del: toFixed2.simps unary_plus.simps multiply.simps)
qed

text \<open>
  The order is visible in the result: a discount of 0.125 at the rate 2 is 0.26 when
  rounded first, and 0.25 when converted first.
\<close>

lemma rounding_order_matters:
  "multiply (unary_plus (toFixed2 (Fin (1 / 8)))) (Fin 2)
   \<noteq> unary_plus (toFixed2 (multiply (Fin (1 / 8)) (Fin 2)))"
  by code_simp

text \<open>
  Claim C5, as amended. \<open>canSubmit\<close> is truthy exactly when the three fields are truthy:
  \<open>tariffId\<close> and \<open>paymentOptionId\<close> are numbers other than 0 and NaN, and \<open>currency\<close> is a
  non-empty string.
\<close>

theorem canSubmit_iff_truthy:
  "truthy (canSubmit fv) =
     ((\<exists>n. tariffId fv = Some n \<and> n \<noteq> NaN \<and> n \<noteq> Fin 0)
      \<and> (\<exists>s. currency fv = Some s \<and> s \<noteq> [])
      \<and> (\<exists>n. paymentOptionId fv = Some n \<and> n \<noteq> NaN \<and> n \<noteq> Fin 0))"
  by (cases "tariffId fv"; cases "currency fv"; cases "paymentOptionId fv")
     (auto simp: canSubmit_def)

text \<open>
  Claim C5 as stated fails for the tariff id 0: the three fields are non-null, yet
  \<open>canSubmit\<close> is 0 and the button is disabled.
\<close>

theorem canSubmit_zero_tariffId:
  "tariffId \<lparr>tariffId = Some (Fin 0), currency = Some ''USD'', paymentOptionId = Some (Fin 10)\<rparr>
     \<noteq> None
   \<and> currency \<lparr>tariffId = Some (Fin 0), currency = Some ''USD'', paymentOptionId = Some (Fin 10)\<rparr>
     \<noteq> None
   \<and> paymentOptionId
       \<lparr>tariffId = Some (Fin 0), currency = Some ''USD'', paymentOptionId = Some (Fin 10)\<rparr>
     \<noteq> None
   \<and> canSubmit \<lparr>tariffId = Some (Fin 0), currency = Some ''USD'', paymentOptionId = Some (Fin 10)\<rparr>
     = JNumber (Fin 0)
   \<and> submit_disabled
       \<lparr>tariffId = Some (Fin 0), currency = Some ''USD'', paymentOptionId = Some (Fin 10)\<rparr>"
  by (simp add: canSubmit_def submit_disabled_def)

text \<open>
  Claim C8, as amended. When no tariff is selected (\<open>tariffId\<close> is \<open>null\<close> or the id of no
  tariff of the catalog), \<open>totalAmount\<close> is 0 and \<open>discount\<close> is 0; and when \<open>tariffId\<close> is
  \<open>null\<close> (or 0, or NaN), \<open>canSubmit\<close> is falsy and the button disabled.
\<close>

theorem no_tariff_selected_zero:
  assumes "selectedTariff st = None"
  shows "totalAmount tk st = Fin 0 \<and> discount gd st = Fin 0
         \<and> (\<not> truthy (of_number (tariffId (formValues st)))
              \<longrightarrow> \<not> truthy (canSubmit (formValues st)) \<and> submit_disabled (formValues st))"
  using assms by (simp add: totalAmount_def discount_def canSubmit_def submit_disabled_def)

text \<open>The loaded component with nothing selected.\<close>

theorem no_tariff_selected_zero_witness:
  "selectedTariff loaded = None
   \<and> \<not> truthy (of_number (tariffId (formValues loaded)))
   \<and> totalAmount Some loaded = Fin 0 \<and> discount flat_discount loaded = Fin 0
   \<and> \<not> truthy (canSubmit (formValues loaded)) \<and> submit_disabled (formValues loaded)"
proof -
  have h: "selectedTariff loaded = None"
    by (simp add: selectedTariff_def loaded_def)
  have n: "\<not> truthy (of_number (tariffId (formValues loaded)))"
    by (simp add: loaded_def)
  from no_tariff_selected_zero [OF h, of Some flat_discount] h n show ?thesis by simp
qed

text \<open>
  Claim C8 as stated fails for a stale \<open>tariffId\<close>: in the scenario with the tariff id
  99, no tariff is selected and the total is 0, but \<open>canSubmit\<close> is truthy.
\<close>

theorem canSubmit_unknown_tariffId:
  "selectedTariff (tariffSelectionHandler (Fin 99) scenario) = None
   \<and> totalAmount Some (tariffSelectionHandler (Fin 99) scenario) = Fin 0
   \<and> canSubmit (formValues (tariffSelectionHandler (Fin 99) scenario)) = JNumber (Fin 10)
   \<and> truthy (canSubmit (formValues (tariffSelectionHandler (Fin 99) scenario)))
   \<and> \<not> submit_disabled (formValues (tariffSelectionHandler (Fin 99) scenario))"
  by (simp add: selectedTariff_def totalAmount_def canSubmit_def submit_disabled_def
      tariffSelectionHandler_def scenario_def loaded_def scenario_tariff_def)

section \<open>The loader\<close>

text \<open>
  Claim C6. When the fetch fails, \<open>fetchData\<close> leaves \<open>tariffs\<close> and \<open>exchangeRates\<close> as they
  were, empty when it starts from the initial component. Whatever the outcome,
  \<open>fetchData\<close> writes \<open>isLoading\<close> exactly once, the value is \<open>false\<close>, and the write is its
  last effect.
\<close>

theorem fetchData_failure_keeps_datasets_and_clears_flag_once:
  "tariffs (fetchData (Inl e) st) = tariffs st
   \<and> exchangeRates (fetchData (Inl e) st) = exchangeRates st
   \<and> tariffs (fetchData (Inl e) (initial :: ('c, 'p) component)) = []
   \<and> exchangeRates (fetchData (Inl e) (initial :: ('c, 'p) component)) = []
   \<and> filter writes_isLoading (fetchData_effects outcome) = [Assign_isLoading False]
   \<and> last (fetchData_effects outcome) = Assign_isLoading False
   \<and> isLoading (fetchData outcome st) = False"
  by (cases outcome) (auto simp: fetchData_def initial_def)

end
